theory Spec2Isabelle
  imports Complex_Main "HOL-Library.Word"
begin

section \<open>Python values and errors\<close>

text \<open>
  The two modules are Python: a dataclass field annotated \<open>bytes\<close> or \<open>str\<close> can hold any
  object at run time, and \<open>len\<close> raises \<open>TypeError\<close> on an object without a length. The
  values below are the annotated ones (\<open>bytes\<close>, \<open>str\<close>) together with \<open>None\<close> and
  \<open>int\<close>, which stand for the objects on which \<open>len\<close> raises.
\<close>

type_synonym byte = "8 word"
type_synonym bytes = "byte list"

datatype pyval = PyBytes bytes | PyStr string | PyNone | PyInt int

text \<open>
  \<open>RuntimeError\<close> is raised at two places of \<open>signature_proof.py\<close>, told apart by their
  message. \<open>ValueError\<close> is what \<open>bytes.fromhex\<close> raises, \<open>TypeError\<close> what \<open>len\<close>
  raises, \<open>NameError\<close> what the use of a name that the module does not bind raises, and
  \<open>CallFailed\<close> stands for any exception raised inside a collaborator (ledger, key
  provider, account library).
\<close>

datatype call =
  WalletToTokenId string | GetKey string string | Info | FromKey string | GetActiveInstances

datatype message = Insufficient_signature_chain_length nat | No_NFT_found_for_wallet string

datatype error = RuntimeError message | ValueError | TypeError | NameError string | CallFailed call

fun py_len :: "pyval \<Rightarrow> error + nat" where
  "py_len (PyBytes bs) = Inr (length bs)"
| "py_len (PyStr s) = Inr (length s)"
| "py_len PyNone = Inl TypeError"
| "py_len (PyInt i) = Inl TypeError"

text \<open>\<open>py_not v\<close> is Python's \<open>not v\<close>: true on the empty sequence, \<open>None\<close> and \<open>0\<close>.\<close>

fun py_not :: "pyval \<Rightarrow> bool" where
  "py_not (PyBytes bs) = (bs = [])"
| "py_not (PyStr s) = (s = [])"
| "py_not PyNone = True"
| "py_not (PyInt i) = (i = 0)"

section \<open>signature_proof.py: the data classes\<close>

record SignatureProof =
  instance_id_bytes32 :: pyval
  derived_public_key :: pyval
  app_signature :: pyval
  kms_signature :: pyval
  purpose :: pyval
  app_id :: pyval

text \<open>
  \<open>RegistrationData\<close> has the fields \<open>token_id\<close>, \<open>instance_id_bytes32\<close>,
  \<open>derived_public_key\<close>, \<open>app_signature\<close>, \<open>kms_signature\<close> and \<open>purpose\<close>; the
  prefix \<open>rd_\<close> keeps them apart from the selectors of \<open>SignatureProof\<close>. The class has no
  \<open>app_id\<close> field.
\<close>

record RegistrationData =
  rd_token_id :: nat
  rd_instance_id_bytes32 :: pyval
  rd_derived_public_key :: pyval
  rd_app_signature :: pyval
  rd_kms_signature :: pyval
  rd_purpose :: pyval

section \<open>verify_proof_format\<close>

text \<open>
  The body of the \<open>try\<close> block, check by check in the order of the source; every \<open>len\<close>
  may raise. The messages sent to the logger are not part of the model.
\<close>

definition verify_proof_format_try :: "SignatureProof \<Rightarrow> error + bool" where
  "verify_proof_format_try sigproof =
     (case py_len (instance_id_bytes32 sigproof) of Inl e \<Rightarrow> Inl e | Inr n1 \<Rightarrow>
       (if n1 \<noteq> 32 then Inr False else
       (case py_len (derived_public_key sigproof) of Inl e \<Rightarrow> Inl e | Inr n2 \<Rightarrow>
         (if n2 \<noteq> 20 then Inr False else
         (case py_len (app_signature sigproof) of Inl e \<Rightarrow> Inl e | Inr n3 \<Rightarrow>
           (if n3 < 65 then Inr False else
           (case py_len (kms_signature sigproof) of Inl e \<Rightarrow> Inl e | Inr n4 \<Rightarrow>
             (if n4 < 65 then Inr False else
             (if py_not (purpose sigproof) then Inr False else
             (case py_len (purpose sigproof) of Inl e \<Rightarrow> Inl e | Inr n5 \<Rightarrow>
               (if n5 = 0 then Inr False else
               (if py_not (app_id sigproof) then Inr False else
               (case py_len (app_id sigproof) of Inl e \<Rightarrow> Inl e | Inr n6 \<Rightarrow>
                 (if n6 = 0 then Inr False else Inr True))))))))))))))"

text \<open>\<open>except Exception\<close> turns every exception of the body into the result \<open>False\<close>.\<close>

definition verify_proof_format :: "SignatureProof \<Rightarrow> error + bool" where
  "verify_proof_format sigproof =
     (case verify_proof_format_try sigproof of Inl e \<Rightarrow> Inr False | Inr b \<Rightarrow> Inr b)"

text \<open>
  The field rules. A rule on a length holds of a value that has that length; it fails on
  a value without a length.
\<close>

definition hash_rule :: "SignatureProof \<Rightarrow> bool" where
  "hash_rule sigproof = (py_len (instance_id_bytes32 sigproof) = Inr 32)"

definition pubkey_rule :: "SignatureProof \<Rightarrow> bool" where
  "pubkey_rule sigproof = (py_len (derived_public_key sigproof) = Inr 20)"

definition long_enough :: "pyval \<Rightarrow> bool" where
  "long_enough v = (case py_len v of Inl e \<Rightarrow> False | Inr n \<Rightarrow> 65 \<le> n)"

definition app_signature_rule :: "SignatureProof \<Rightarrow> bool" where
  "app_signature_rule sigproof = long_enough (app_signature sigproof)"

definition kms_signature_rule :: "SignatureProof \<Rightarrow> bool" where
  "kms_signature_rule sigproof = long_enough (kms_signature sigproof)"

definition non_empty :: "pyval \<Rightarrow> bool" where
  "non_empty v = (case py_len v of Inl e \<Rightarrow> False | Inr n \<Rightarrow> 0 < n)"

definition purpose_rule :: "SignatureProof \<Rightarrow> bool" where
  "purpose_rule sigproof = non_empty (purpose sigproof)"

definition app_id_rule :: "SignatureProof \<Rightarrow> bool" where
  "app_id_rule sigproof = non_empty (app_id sigproof)"

definition five_rules :: "SignatureProof \<Rightarrow> bool" where
  "five_rules sigproof =
     (hash_rule sigproof \<and> pubkey_rule sigproof \<and> app_signature_rule sigproof \<and> kms_signature_rule sigproof \<and>
      purpose_rule sigproof)"

section \<open>Hex text and padding\<close>

text \<open>
  \<open>bytes.fromhex\<close> reads two hexadecimal digits per byte and skips ASCII whitespace
  between bytes; anything else raises \<open>ValueError\<close>.
\<close>

definition hex_digit :: "char \<Rightarrow> nat option" where
  "hex_digit c =
     (let n = (of_char c :: nat)
      in if 48 \<le> n \<and> n \<le> 57 then Some (n - 48)
         else if 97 \<le> n \<and> n \<le> 102 then Some (n - 87)
         else if 65 \<le> n \<and> n \<le> 70 then Some (n - 55)
         else None)"

definition is_space :: "char \<Rightarrow> bool" where
  "is_space c = (let n = (of_char c :: nat) in n = 32 \<or> (9 \<le> n \<and> n \<le> 13))"

fun fromhex :: "string \<Rightarrow> error + bytes" where
  "fromhex [] = Inr []"
| "fromhex [c] = (if is_space c then Inr [] else Inl ValueError)"
| "fromhex (c # d # cs) =
     (if is_space c then fromhex (d # cs)
      else case (hex_digit c, hex_digit d) of
             (Some hi, Some lo) \<Rightarrow>
               (case fromhex cs of
                  Inl e \<Rightarrow> Inl e
                | Inr bs \<Rightarrow> Inr (of_nat (hi * 16 + lo) # bs))
           | _ \<Rightarrow> Inl ValueError)"

text \<open>\<open>s.replace('0x', '')\<close>: every occurrence of \<open>0x\<close>, found from the left, is removed.\<close>

fun replace_0x :: "string \<Rightarrow> string" where
  "replace_0x [] = []"
| "replace_0x [c] = [c]"
| "replace_0x (c # d # cs) =
     (if c = CHR ''0'' \<and> d = CHR ''x'' then replace_0x cs else c # replace_0x (d # cs))"

text \<open>\<open>b.ljust(width, fill)\<close> pads on the right and returns \<open>b\<close> itself when it is long enough.\<close>

definition ljust :: "bytes \<Rightarrow> nat \<Rightarrow> byte \<Rightarrow> bytes" where
  "ljust bs width fill =
     (if width \<le> length bs then bs else bs @ replicate (width - length bs) fill)"

text \<open>
  \<open>s.encode()\<close> is UTF-8. A character of a HOL \<open>string\<close> is a code point below 256: it
  is one byte below 128 and two bytes from 128 on.
\<close>

definition utf8 :: "char \<Rightarrow> bytes" where
  "utf8 c =
     (let n = (of_char c :: nat)
      in if n < 128 then [of_nat n] else [of_nat (192 + n div 64), of_nat (128 + n mod 64)])"

definition encode :: "string \<Rightarrow> bytes" where
  "encode s = concat (map utf8 s)"

section \<open>signature_proof.py: the collaborators\<close>

text \<open>
  The key provider (\<open>self.dstack_client\<close>), the ledger contract and the two library
  functions \<open>hashlib.sha256(...).digest()\<close> and \<open>Account.from_key(...).address\<close> are
  outside the repository and are parameters. A call that raises answers \<open>None\<close>.
\<close>

record KeyResponse =
  key :: string
  signature_chain :: "pyval list"

record InfoResponse =
  info_app_id :: string

record DstackClient =
  get_key :: "string \<Rightarrow> string \<Rightarrow> KeyResponse option"
  info :: "InfoResponse option"

record Libraries =
  sha256 :: "bytes \<Rightarrow> bytes"
  from_key :: "string \<Rightarrow> string option"

record Contract =
  walletToTokenId :: "string \<Rightarrow> nat option"

section \<open>generate_proof\<close>

text \<open>
  A signature of the chain that is a \<open>str\<close> is decoded from hex after \<open>replace('0x', '')\<close>;
  any other object is kept as it is.
\<close>

definition signature_bytes :: "pyval \<Rightarrow> error + pyval" where
  "signature_bytes v =
     (case v of
        PyStr s \<Rightarrow> (case fromhex (replace_0x s) of Inl e \<Rightarrow> Inl e | Inr bs \<Rightarrow> Inr (PyBytes bs))
      | _ \<Rightarrow> Inr v)"

text \<open>
  The result comes with the calls made to the key provider and the ledger, in order.
  \<open>bytes32\<close> is \<open>bytes\<close> (the fallback of the import), so \<open>bytes32(instance_hash)\<close> is
  \<open>instance_hash\<close>.
\<close>

definition generate_proof ::
  "Libraries \<Rightarrow> DstackClient \<Rightarrow> string \<Rightarrow> string \<Rightarrow> string \<Rightarrow>
     (error + SignatureProof) \<times> call list" where
  "generate_proof lib client instance_id key_path key_purpose =
     (let instance_hash = sha256 lib (encode instance_id);
          c1 = [GetKey key_path key_purpose];
          c2 = [GetKey key_path key_purpose, Info]
      in case get_key client key_path key_purpose of
           None \<Rightarrow> (Inl (CallFailed (GetKey key_path key_purpose)), c1)
         | Some key_response \<Rightarrow>
            (if length (signature_chain key_response) < 2
             then (Inl (RuntimeError (Insufficient_signature_chain_length
                         (length (signature_chain key_response)))), c1)
             else
            (case signature_bytes (signature_chain key_response ! 0) of
               Inl e \<Rightarrow> (Inl e, c1)
             | Inr app_sig \<Rightarrow>
            (case signature_bytes (signature_chain key_response ! 1) of
               Inl e \<Rightarrow> (Inl e, c1)
             | Inr kms_sig \<Rightarrow>
            (case from_key lib (key key_response) of
               None \<Rightarrow> (Inl (CallFailed (FromKey (key key_response))), c1)
             | Some address \<Rightarrow>
            (case fromhex (drop 2 address) of
               Inl e \<Rightarrow> (Inl e, c1)
             | Inr derived_public_key_bytes \<Rightarrow>
            (case info client of
               None \<Rightarrow> (Inl (CallFailed Info), c2)
             | Some info_response \<Rightarrow>
            (case fromhex (drop 2 (info_app_id info_response)) of
               Inl e \<Rightarrow> (Inl e, c2)
             | Inr app_id_bytes \<Rightarrow>
                 (Inr \<lparr>instance_id_bytes32 = PyBytes instance_hash,
                       derived_public_key = PyBytes derived_public_key_bytes,
                       app_signature = app_sig,
                       kms_signature = kms_sig,
                       purpose = PyStr key_purpose,
                       app_id = PyBytes (ljust app_id_bytes 32 0)\<rparr>, c2)))))))))"

section \<open>get_registration_data\<close>

definition get_registration_data ::
  "Libraries \<Rightarrow> DstackClient \<Rightarrow> Contract \<Rightarrow> string \<Rightarrow> string \<Rightarrow> string \<Rightarrow> string \<Rightarrow>
     (error + RegistrationData) \<times> call list" where
  "get_registration_data lib client contract wallet_address instance_id key_path key_purpose =
     (case walletToTokenId contract wallet_address of
        None \<Rightarrow> (Inl (CallFailed (WalletToTokenId wallet_address)),
                 [WalletToTokenId wallet_address])
      | Some token_id \<Rightarrow>
        if token_id = 0
        then (Inl (RuntimeError (No_NFT_found_for_wallet wallet_address)),
              [WalletToTokenId wallet_address])
        else
          (case generate_proof lib client instance_id key_path key_purpose of
             (Inl e, calls) \<Rightarrow> (Inl e, WalletToTokenId wallet_address # calls)
           | (Inr sigproof, calls) \<Rightarrow>
               (Inr \<lparr>rd_token_id = token_id,
                     rd_instance_id_bytes32 = instance_id_bytes32 sigproof,
                     rd_derived_public_key = derived_public_key sigproof,
                     rd_app_signature = app_signature sigproof,
                     rd_kms_signature = kms_signature sigproof,
                     rd_purpose = purpose sigproof\<rparr>,
                WalletToTokenId wallet_address # calls)))"

section \<open>counter.py: the state of a node\<close>

text \<open>
  An entry of \<open>operation_log\<close> is the dict with the keys \<open>timestamp\<close>, \<open>operation\<close>,
  \<open>new_value\<close> and \<open>leader\<close>.
\<close>

record operation_entry =
  timestamp :: real
  operation :: string
  new_value :: int
  leader :: string

text \<open>
  The attributes of a \<open>DistributedCounter\<close> that the monitor and the counter read or
  write. \<open>vote_no_confidence\<close> and \<open>vote_confidence\<close> read \<open>self.wallet_private_key\<close>;
  the field says whether the object has that attribute (\<open>None\<close>: reading it raises
  \<open>AttributeError\<close>).
\<close>

record DistributedCounter =
  wallet_address :: string
  counter_value :: int
  operation_log :: "operation_entry list"
  is_leader :: bool
  last_leader_heartbeat :: real
  wallet_private_key :: "string option"

text \<open>
  \<open>__init__\<close>: the wallet address comes from the key provider
  (\<open>_init_dstack_wallet\<close>); no statement of the class assigns \<open>wallet_private_key\<close>.
\<close>

definition DistributedCounter_init :: "string \<Rightarrow> DistributedCounter" where
  "DistributedCounter_init address =
     \<lparr>wallet_address = address,
      counter_value = 0,
      operation_log = [],
      is_leader = False,
      last_leader_heartbeat = 0,
      wallet_private_key = None\<rparr>"

section \<open>counter.py: the names the module does not bind\<close>

text \<open>
  \<open>counter.py\<close> imports \<open>asyncio\<close>, \<open>logging\<close>, \<open>argparse\<close>, \<open>json\<close>, \<open>typing\<close>,
  \<open>dstack_sdk\<close>, \<open>web3\<close>, \<open>eth_account\<close> and \<open>signature_proof\<close>. Its methods use the
  names \<open>time\<close>, \<open>web\<close> and \<open>aiohttp\<close>, which no statement of the module binds: the
  evaluation of \<open>time.time()\<close>, of \<open>web.json_response(...)\<close> and of
  \<open>aiohttp.ClientTimeout(...)\<close> raises \<open>NameError\<close>.
\<close>

datatype response = json_error nat string | json_increment bool int nat

definition time_time :: "error + real" where
  "time_time = Inl (NameError ''time'')"

definition web_json_response :: "response \<Rightarrow> error + response" where
  "web_json_response body = Inl (NameError ''web'')"

section \<open>counter.py: the leader monitor\<close>

text \<open>
  What the ledger answers during one poll cycle: the result of \<open>currentLeader().call()\<close>
  (\<open>None\<close>: the call raised), whether \<open>getActiveInstances().call()\<close> returns, whether
  \<open>build_transaction\<close> with its nonce and gas-price queries returns, and whether
  \<open>send_raw_transaction\<close> returns.
\<close>

record cycle =
  currentLeader :: "string option"
  getActiveInstances_ok :: bool
  build_transaction_ok :: bool
  send_raw_transaction_ok :: bool

text \<open>A transaction handed to \<open>send_raw_transaction\<close>.\<close>

datatype tx = castVote string bool

definition zero_address :: string where
  "zero_address = ''0x0000000000000000000000000000000000000000''"

text \<open>
  The body of the \<open>try\<close> block of \<open>ping_leader\<close>: it reads the active instances, then
  enters \<open>async with aiohttp.ClientTimeout(total=timeout)\<close>, which raises; the request
  to the fixed URL and the comparison of its status with 200 are never reached, whatever
  \<open>leader_address\<close> is.
\<close>

definition ping_leader_try :: "cycle \<Rightarrow> string \<Rightarrow> error + bool" where
  "ping_leader_try net leader_address =
     (if \<not> getActiveInstances_ok net then Inl (CallFailed GetActiveInstances)
      else Inl (NameError ''aiohttp''))"

text \<open>\<open>except Exception\<close> answers \<open>False\<close>.\<close>

definition ping_leader :: "cycle \<Rightarrow> string \<Rightarrow> bool" where
  "ping_leader net leader_address =
     (case ping_leader_try net leader_address of Inl e \<Rightarrow> False | Inr b \<Rightarrow> b)"

text \<open>
  The two vote functions return the transactions they sent. Each builds the transaction,
  signs it with \<open>self.wallet_private_key\<close> and sends it, inside \<open>try\<close>; an exception at
  any of the three steps is logged and nothing is sent.
\<close>

definition vote_no_confidence :: "DistributedCounter \<Rightarrow> cycle \<Rightarrow> string \<Rightarrow> tx list" where
  "vote_no_confidence self net target_leader =
     (if \<not> build_transaction_ok net then []
      else case wallet_private_key self of
             None \<Rightarrow> []
           | Some k \<Rightarrow> (if send_raw_transaction_ok net then [castVote target_leader True] else []))"

definition vote_confidence :: "DistributedCounter \<Rightarrow> cycle \<Rightarrow> string \<Rightarrow> tx list" where
  "vote_confidence self net target_leader =
     (if \<not> build_transaction_ok net then []
      else case wallet_private_key self of
             None \<Rightarrow> []
           | Some k \<Rightarrow> (if send_raw_transaction_ok net then [castVote target_leader False] else []))"

text \<open>
  One poll cycle: the new state and the transactions sent. There is no \<open>await\<close> between
  the read of \<open>currentLeader\<close> and the write of \<open>is_leader\<close>, and the probe and the votes
  catch their own exceptions, so the outer \<open>except\<close> is reached only when
  \<open>currentLeader().call()\<close> raises.
\<close>

definition check_leader_status :: "DistributedCounter \<Rightarrow> cycle \<Rightarrow> DistributedCounter \<times> tx list" where
  "check_leader_status self net =
     (case currentLeader net of
        None \<Rightarrow> (self, [])
      | Some current_leader \<Rightarrow>
          if current_leader = wallet_address self
          then ((if \<not> is_leader self then self\<lparr>is_leader := True\<rparr> else self), [])
          else
            (let self1 = (if is_leader self then self\<lparr>is_leader := False\<rparr> else self)
             in if current_leader \<noteq> zero_address
                then (if \<not> ping_leader net current_leader
                      then (self1, vote_no_confidence self1 net current_leader)
                      else (self1, vote_confidence self1 net current_leader))
                else (self1, [])))"

section \<open>counter.py: the counter\<close>

text \<open>
  \<open>increment_counter\<close> answers through \<open>web.json_response\<close>: the error with its status
  403, or the body \<open>success\<close>, \<open>new_value\<close>, \<open>operation_id\<close>. The handler has no \<open>await\<close>
  and no \<open>try\<close>: it runs as one step, and an exception leaves it where it is raised, after
  the assignments made so far. On a leader, \<open>self.counter_value += 1\<close> comes first and the
  dict of the log entry, with its \<open>time.time()\<close>, second.
\<close>

definition increment_counter :: "DistributedCounter \<Rightarrow> DistributedCounter \<times> (error + response)" where
  "increment_counter self =
     (if \<not> is_leader self
      then (self, web_json_response (json_error 403 ''Only leader can increment counter''))
      else
        (let self1 = self\<lparr>counter_value := counter_value self + 1\<rparr>
         in case time_time of
              Inl e \<Rightarrow> (self1, Inl e)
            | Inr now \<Rightarrow>
                (let entry = \<lparr>timestamp = now, operation = ''increment'',
                              new_value = counter_value self1, leader = wallet_address self1\<rparr>;
                     self2 = self1\<lparr>operation_log := operation_log self1 @ [entry]\<rparr>
                 in (self2,
                     web_json_response
                       (json_increment True (counter_value self2)
                          (length (operation_log self2)))))))"

text \<open>
  One round of the loop of \<open>leader_heartbeat\<close>: the body of its \<open>try\<close> block, and the
  round with \<open>except Exception\<close>, which logs the error and leaves the node as it is.
\<close>

definition leader_heartbeat_try :: "DistributedCounter \<Rightarrow> error + DistributedCounter" where
  "leader_heartbeat_try self =
     (if is_leader self
      then (case time_time of
              Inl e \<Rightarrow> Inl e
            | Inr now \<Rightarrow> Inr (self\<lparr>last_leader_heartbeat := now\<rparr>))
      else Inr self)"

definition leader_heartbeat :: "DistributedCounter \<Rightarrow> DistributedCounter" where
  "leader_heartbeat self =
     (case leader_heartbeat_try self of Inl e \<Rightarrow> self | Inr self1 \<Rightarrow> self1)"

text \<open>
  The life of a node after \<open>__init__\<close> is a sequence of poll cycles, increment requests
  and heartbeat rounds, in any order.
\<close>

datatype event = Poll cycle | Increment | Heartbeat

fun step :: "DistributedCounter \<Rightarrow> event \<Rightarrow> DistributedCounter" where
  "step self (Poll net) = fst (check_leader_status self net)"
| "step self Increment = fst (increment_counter self)"
| "step self Heartbeat = leader_heartbeat self"

fun run :: "DistributedCounter \<Rightarrow> event list \<Rightarrow> DistributedCounter" where
  "run self [] = self"
| "run self (ev # evs) = run (step self ev) evs"

text \<open>The monitor's state as the specification names it.\<close>

datatype monitor_state = Follower | Leader

definition monitor_state_of :: "DistributedCounter \<Rightarrow> monitor_state" where
  "monitor_state_of self = (if is_leader self then Leader else Follower)"

section \<open>Auxiliary definitions and example inputs\<close>

text \<open>The length of the \<open>app_id\<close> of a generated proof, and the \<open>app_id\<close> itself.\<close>

definition proof_app_id_len :: "error + SignatureProof \<Rightarrow> error + nat" where
  "proof_app_id_len r = (case r of Inl e \<Rightarrow> Inl e | Inr p \<Rightarrow> py_len (app_id p))"

definition proof_app_id :: "error + SignatureProof \<Rightarrow> pyval option" where
  "proof_app_id r = (case r of Inl e \<Rightarrow> None | Inr p \<Rightarrow> Some (app_id p))"

text \<open>A proof that passes the five rules and has an empty \<open>app_id\<close>.\<close>

definition proof_without_app_id :: SignatureProof where
  "proof_without_app_id =
     \<lparr>instance_id_bytes32 = PyBytes (replicate 32 1),
      derived_public_key = PyBytes (replicate 20 2),
      app_signature = PyBytes (replicate 65 3),
      kms_signature = PyBytes (replicate 65 4),
      purpose = PyStr ''ethereum'',
      app_id = PyBytes []\<rparr>"

text \<open>A proof whose hash has 31 bytes, and a proof that passes every check.\<close>

definition proof_short_hash :: SignatureProof where
  "proof_short_hash = proof_without_app_id
     \<lparr>instance_id_bytes32 := PyBytes (replicate 31 1), app_id := PyBytes (replicate 32 5)\<rparr>"

definition proof_well_formed :: SignatureProof where
  "proof_well_formed = proof_without_app_id\<lparr>app_id := PyBytes (replicate 32 5)\<rparr>"

text \<open>
  Collaborators for the examples: a digest of 32 bytes, an account library that answers
  one fixed address, a key provider that answers a given chain and a given \<open>app_id\<close>, and
  a ledger that answers a given token id.
\<close>

definition example_lib :: Libraries where
  "example_lib =
     \<lparr>sha256 = (\<lambda>bs. replicate 32 7),
      from_key = (\<lambda>k. Some ''0x00112233445566778899aAbBcCdDeEfF00112233'')\<rparr>"

definition example_client :: "pyval list \<Rightarrow> string \<Rightarrow> DstackClient" where
  "example_client chain aid =
     \<lparr>get_key = (\<lambda>path key_purpose. Some \<lparr>key = ''k'', signature_chain = chain\<rparr>),
      info = Some \<lparr>info_app_id = aid\<rparr>\<rparr>"

definition example_contract :: "nat \<Rightarrow> Contract" where
  "example_contract t = \<lparr>walletToTokenId = (\<lambda>w. Some t)\<rparr>"

definition chain_of_three :: "pyval list" where
  "chain_of_three = [PyStr ''0xabcd'', PyBytes [1, 2], PyNone]"

definition malformed_chain :: "pyval list" where
  "malformed_chain = [PyStr ''0xabc'', PyBytes [1, 2]]"

text \<open>
  An \<open>app_id\<close> of 33 bytes after the prefix, and an \<open>app_id\<close> of 20 bytes without a prefix.
\<close>

definition app_id_without_prefix :: string where
  "app_id_without_prefix = ''a1b2c3d4e5f60718293a4b5c6d7e8f9001020304''"

definition long_app_id :: string where
  "long_app_id =
     ''0x000000000000000000000000000000000000000000000000000000000000000001''"

text \<open>
  Poll cycles: the ledger names \<open>x\<close> as leader and answers every call; the ledger
  cannot be read.
\<close>

definition leader_is :: "string \<Rightarrow> cycle" where
  "leader_is x =
     \<lparr>currentLeader = Some x, getActiveInstances_ok = True,
      build_transaction_ok = True, send_raw_transaction_ok = True\<rparr>"

definition ledger_down :: cycle where
  "ledger_down =
     \<lparr>currentLeader = None, getActiveInstances_ok = False,
      build_transaction_ok = False, send_raw_transaction_ok = False\<rparr>"

section \<open>Properties of verify_proof_format\<close>

lemma py_not_len: "py_not v \<Longrightarrow> \<not> non_empty v"
  by (cases v) (simp_all add: non_empty_def)

lemma verify_try_rules:
  "verify_proof_format_try p = Inr True \<longleftrightarrow> (five_rules p \<and> app_id_rule p)"
  unfolding verify_proof_format_try_def five_rules_def hash_rule_def pubkey_rule_def
    app_signature_rule_def kms_signature_rule_def purpose_rule_def app_id_rule_def
    long_enough_def
  using py_not_len [of "purpose p"] py_not_len [of "app_id p"]
  by (auto simp: non_empty_def split: sum.splits)

lemma verify_proof_format_value:
  "verify_proof_format p = Inr (five_rules p \<and> app_id_rule p)"
proof (cases "verify_proof_format_try p")
  case (Inl e)
  then show ?thesis
    using verify_try_rules [of p] by (auto simp add: verify_proof_format_def)
next
  case (Inr b)
  then show ?thesis
    using verify_try_rules [of p] by (cases b) (auto simp add: verify_proof_format_def)
qed

lemmas rule_defs = five_rules_def hash_rule_def pubkey_rule_def app_signature_rule_def
  kms_signature_rule_def purpose_rule_def app_id_rule_def long_enough_def non_empty_def

lemmas example_proof_defs = proof_without_app_id_def proof_short_hash_def proof_well_formed_def

text \<open>
  C1, as stated: \<open>verify_proof_format\<close> returns false if and only if one of the five rules
  (hash length, public-key length, the two signature lengths, non-empty purpose) is
  violated. It is false: a proof that passes the five rules and has an empty \<open>app_id\<close> is
  rejected by the sixth check of the function.
\<close>

theorem verify_five_rules_counterexample:
  "five_rules proof_without_app_id \<and> verify_proof_format proof_without_app_id = Inr False"
  by (simp add: verify_proof_format_value rule_defs example_proof_defs)

text \<open>
  C1, amended: \<open>verify_proof_format\<close> returns false if and only if at least one of the six
  rules is violated: \<open>instance_id_bytes32\<close> of length other than 32, \<open>derived_public_key\<close>
  of length other than 20, \<open>app_signature\<close> or \<open>kms_signature\<close> shorter than 65, empty
  \<open>purpose\<close>, or empty \<open>app_id\<close>.
\<close>

theorem verify_false_iff_rule_violated:
  "verify_proof_format p = Inr False \<longleftrightarrow>
     (\<not> hash_rule p \<or> \<not> pubkey_rule p \<or> \<not> app_signature_rule p \<or>
      \<not> kms_signature_rule p \<or> \<not> purpose_rule p \<or> \<not> app_id_rule p)"
  by (auto simp add: verify_proof_format_value five_rules_def)

theorem verify_false_iff_rule_violated_witness:
  "\<not> hash_rule proof_short_hash \<and> verify_proof_format proof_short_hash = Inr False"
proof -
  have h: "\<not> hash_rule proof_short_hash"
    by (simp add: hash_rule_def example_proof_defs)
  then show ?thesis
    using verify_false_iff_rule_violated [of proof_short_hash] by simp
qed

text \<open>
  C2: \<open>verify_proof_format\<close> is total and no exception escapes it: on every proof, also
  one whose fields have no length, it returns a boolean, and the boolean is true exactly
  when the six rules hold (\<open>instance_id_bytes32\<close> of length 32, \<open>derived_public_key\<close> of
  length 20, both signatures of length at least 65, \<open>purpose\<close> and \<open>app_id\<close> non-empty).
\<close>

theorem verify_proof_format_total:
  "verify_proof_format p =
     Inr (hash_rule p \<and> pubkey_rule p \<and> app_signature_rule p \<and> kms_signature_rule p \<and>
          purpose_rule p \<and> app_id_rule p)"
  by (simp add: verify_proof_format_value five_rules_def)

theorem verify_proof_format_total_witness:
  "verify_proof_format proof_well_formed = Inr True \<and>
   verify_proof_format (proof_well_formed\<lparr>purpose := PyInt 5\<rparr>) = Inr False"
  using verify_proof_format_total [of proof_well_formed]
    verify_proof_format_total [of "proof_well_formed\<lparr>purpose := PyInt 5\<rparr>"]
  by (simp add: rule_defs example_proof_defs)

section \<open>Properties of generate_proof\<close>

lemma fromhex_error: "fromhex s = Inl e \<Longrightarrow> e = ValueError"
  by (induction s arbitrary: e rule: fromhex.induct)
    (auto split: if_splits option.splits sum.splits)

lemma signature_bytes_error: "signature_bytes v = Inl e \<Longrightarrow> e = ValueError"
  by (auto simp: signature_bytes_def split: pyval.splits sum.splits dest: fromhex_error)

lemma generate_proof_short:
  assumes "get_key client key_path key_purpose = Some r"
    and "length (signature_chain r) < 2"
  shows "generate_proof lib client i key_path key_purpose =
    (Inl (RuntimeError (Insufficient_signature_chain_length (length (signature_chain r)))),
     [GetKey key_path key_purpose])"
  using assms by (simp add: generate_proof_def)

lemma generate_proof_runtime_error:
  assumes "fst (generate_proof lib client i key_path key_purpose) = Inl (RuntimeError m)"
  shows "\<exists>r. get_key client key_path key_purpose = Some r \<and> length (signature_chain r) < 2 \<and>
           m = Insufficient_signature_chain_length (length (signature_chain r))"
  using assms
  by (auto simp: generate_proof_def Let_def split: if_splits sum.splits option.splits
      dest: fromhex_error signature_bytes_error)

lemma generate_proof_long:
  assumes "get_key client key_path key_purpose = Some r"
    and "2 \<le> length (signature_chain r)"
    and "signature_bytes (signature_chain r ! 0) = Inr a"
    and "signature_bytes (signature_chain r ! 1) = Inr k"
    and "from_key lib (key r) = Some address"
    and "fromhex (drop 2 address) = Inr pk"
    and "info client = Some info_response"
    and "fromhex (drop 2 (info_app_id info_response)) = Inr aid"
  shows "generate_proof lib client i key_path key_purpose =
    (Inr \<lparr>instance_id_bytes32 = PyBytes (sha256 lib (encode i)),
          derived_public_key = PyBytes pk,
          app_signature = a,
          kms_signature = k,
          purpose = PyStr key_purpose,
          app_id = PyBytes (ljust aid 32 0)\<rparr>,
     [GetKey key_path key_purpose, Info])"
  using assms by (simp add: generate_proof_def)

lemma generate_proof_take2:
  assumes "get_key client key_path key_purpose = Some r"
    and "2 \<le> length (signature_chain r)"
  shows "generate_proof lib client i key_path key_purpose =
     generate_proof lib
       (client\<lparr>get_key := (\<lambda>p q. Some (r\<lparr>signature_chain := take 2 (signature_chain r)\<rparr>))\<rparr>)
       i key_path key_purpose"
proof -
  have "length (take 2 (signature_chain r)) = 2" using assms(2) by simp
  moreover have "take 2 (signature_chain r) ! 0 = signature_chain r ! 0" by simp
  moreover have "take 2 (signature_chain r) ! 1 = signature_chain r ! 1" by simp
  ultimately show ?thesis
    using assms by (simp add: generate_proof_def Let_def split: sum.splits option.splits)
qed

lemma generate_proof_success:
  assumes "fst (generate_proof lib client i key_path key_purpose) = Inr p"
  shows "\<exists>r a k address pk info_response aid.
      get_key client key_path key_purpose = Some r \<and>
      2 \<le> length (signature_chain r) \<and>
      signature_bytes (signature_chain r ! 0) = Inr a \<and>
      signature_bytes (signature_chain r ! 1) = Inr k \<and>
      from_key lib (key r) = Some address \<and>
      fromhex (drop 2 address) = Inr pk \<and>
      info client = Some info_response \<and>
      fromhex (drop 2 (info_app_id info_response)) = Inr aid \<and>
      p = \<lparr>instance_id_bytes32 = PyBytes (sha256 lib (encode i)),
          derived_public_key = PyBytes pk,
          app_signature = a,
          kms_signature = k,
          purpose = PyStr key_purpose,
          app_id = PyBytes (ljust aid 32 0)\<rparr>"
  using assms
  by (auto simp: generate_proof_def Let_def split: if_splits sum.splits option.splits)

lemma generate_proof_calls:
  "GetKey key_path key_purpose \<in> set (snd (generate_proof lib client i key_path key_purpose))"
  by (simp add: generate_proof_def Let_def split: sum.splits option.splits)

lemmas example_defs = example_lib_def example_client_def example_contract_def
  chain_of_three_def malformed_chain_def long_app_id_def

lemmas hex_defs = signature_bytes_def hex_digit_def is_space_def ljust_def

text \<open>
  C3, as stated: for every answer of the key provider, \<open>generate_proof\<close> succeeds when
  the signature chain has two or more elements. It is false: a chain of two elements
  whose first element is hex text of odd length makes \<open>bytes.fromhex\<close> raise
  \<open>ValueError\<close>.
\<close>

theorem generate_proof_long_chain_counterexample:
  "length malformed_chain = 2 \<and>
   fst (generate_proof example_lib (example_client malformed_chain ''0x0102'')
          ''node-1'' ''node/node-1'' ''ethereum'') = Inl ValueError"
  by (simp add: generate_proof_def example_defs hex_defs)

lemma generate_proof_failing_step:
  assumes "get_key client key_path key_purpose = Some r"
    and "2 \<le> length (signature_chain r)"
  shows "signature_bytes (signature_chain r ! 0) = Inl e \<Longrightarrow>
           e = ValueError \<and>
           fst (generate_proof lib client i key_path key_purpose) = Inl ValueError"
    and "signature_bytes (signature_chain r ! 0) = Inr a \<Longrightarrow>
         signature_bytes (signature_chain r ! 1) = Inl e \<Longrightarrow>
           e = ValueError \<and>
           fst (generate_proof lib client i key_path key_purpose) = Inl ValueError"
    and "signature_bytes (signature_chain r ! 0) = Inr a \<Longrightarrow>
         signature_bytes (signature_chain r ! 1) = Inr k \<Longrightarrow>
         from_key lib (key r) = None \<Longrightarrow>
           fst (generate_proof lib client i key_path key_purpose) =
             Inl (CallFailed (FromKey (key r)))"
    and "signature_bytes (signature_chain r ! 0) = Inr a \<Longrightarrow>
         signature_bytes (signature_chain r ! 1) = Inr k \<Longrightarrow>
         from_key lib (key r) = Some address \<Longrightarrow>
         fromhex (drop 2 address) = Inl e \<Longrightarrow>
           e = ValueError \<and>
           fst (generate_proof lib client i key_path key_purpose) = Inl ValueError"
    and "signature_bytes (signature_chain r ! 0) = Inr a \<Longrightarrow>
         signature_bytes (signature_chain r ! 1) = Inr k \<Longrightarrow>
         from_key lib (key r) = Some address \<Longrightarrow>
         fromhex (drop 2 address) = Inr pk \<Longrightarrow>
         info client = None \<Longrightarrow>
           fst (generate_proof lib client i key_path key_purpose) = Inl (CallFailed Info)"
    and "signature_bytes (signature_chain r ! 0) = Inr a \<Longrightarrow>
         signature_bytes (signature_chain r ! 1) = Inr k \<Longrightarrow>
         from_key lib (key r) = Some address \<Longrightarrow>
         fromhex (drop 2 address) = Inr pk \<Longrightarrow>
         info client = Some info_response \<Longrightarrow>
         fromhex (drop 2 (info_app_id info_response)) = Inl e \<Longrightarrow>
           e = ValueError \<and>
           fst (generate_proof lib client i key_path key_purpose) = Inl ValueError"
  using assms
  by (auto simp add: generate_proof_def dest: fromhex_error signature_bytes_error)

text \<open>
  C3, amended: whenever \<open>get_key\<close> answers, \<open>generate_proof\<close> raises the
  \<open>RuntimeError\<close> of the insufficient chain when the chain has length 0 or 1, and raises a
  \<open>RuntimeError\<close> in no other case. When the chain has length at least 2 and the later
  steps succeed (both signatures decode, the account library gives an address that
  decodes, \<open>info\<close> answers an \<open>app_id\<close> that decodes), it succeeds with element 0 as
  \<open>app_signature\<close> and element 1 as \<open>kms_signature\<close>; the elements beyond index 1 are
  ignored: the outcome is the one for the chain cut to its first two elements. Otherwise
  it fails with the error of the first step that fails, in the order of the source:
  \<open>ValueError\<close> when element 0, then element 1, is hex text that does not decode; the
  failure of \<open>Account.from_key\<close>; \<open>ValueError\<close> when the address does not decode; the
  failure of \<open>info\<close>; \<open>ValueError\<close> when the \<open>app_id\<close> does not decode.
\<close>

theorem generate_proof_signature_chain:
  assumes "get_key client key_path key_purpose = Some r"
  shows
    "(length (signature_chain r) < 2 \<longrightarrow>
        fst (generate_proof lib client i key_path key_purpose) =
          Inl (RuntimeError (Insufficient_signature_chain_length (length (signature_chain r))))) \<and>
     (\<forall>m. fst (generate_proof lib client i key_path key_purpose) = Inl (RuntimeError m) \<longrightarrow>
        length (signature_chain r) < 2) \<and>
     (2 \<le> length (signature_chain r) \<longrightarrow>
        (\<forall>a k address pk info_response aid.
           signature_bytes (signature_chain r ! 0) = Inr a \<and>
           signature_bytes (signature_chain r ! 1) = Inr k \<and>
           from_key lib (key r) = Some address \<and>
           fromhex (drop 2 address) = Inr pk \<and>
           info client = Some info_response \<and>
           fromhex (drop 2 (info_app_id info_response)) = Inr aid \<longrightarrow>
           fst (generate_proof lib client i key_path key_purpose) =
             Inr \<lparr>instance_id_bytes32 = PyBytes (sha256 lib (encode i)),
                  derived_public_key = PyBytes pk,
                  app_signature = a,
                  kms_signature = k,
                  purpose = PyStr key_purpose,
                  app_id = PyBytes (ljust aid 32 0)\<rparr>) \<and>
        generate_proof lib client i key_path key_purpose =
          generate_proof lib
            (client\<lparr>get_key :=
               (\<lambda>p q. Some (r\<lparr>signature_chain := take 2 (signature_chain r)\<rparr>))\<rparr>)
            i key_path key_purpose \<and>
        (\<forall>e. signature_bytes (signature_chain r ! 0) = Inl e \<longrightarrow>
           e = ValueError \<and>
           fst (generate_proof lib client i key_path key_purpose) = Inl ValueError) \<and>
        (\<forall>a e.
           signature_bytes (signature_chain r ! 0) = Inr a \<and>
           signature_bytes (signature_chain r ! 1) = Inl e \<longrightarrow>
           e = ValueError \<and>
           fst (generate_proof lib client i key_path key_purpose) = Inl ValueError) \<and>
        (\<forall>a k.
           signature_bytes (signature_chain r ! 0) = Inr a \<and>
           signature_bytes (signature_chain r ! 1) = Inr k \<and>
           from_key lib (key r) = None \<longrightarrow>
           fst (generate_proof lib client i key_path key_purpose) =
             Inl (CallFailed (FromKey (key r)))) \<and>
        (\<forall>a k address e.
           signature_bytes (signature_chain r ! 0) = Inr a \<and>
           signature_bytes (signature_chain r ! 1) = Inr k \<and>
           from_key lib (key r) = Some address \<and>
           fromhex (drop 2 address) = Inl e \<longrightarrow>
           e = ValueError \<and>
           fst (generate_proof lib client i key_path key_purpose) = Inl ValueError) \<and>
        (\<forall>a k address pk.
           signature_bytes (signature_chain r ! 0) = Inr a \<and>
           signature_bytes (signature_chain r ! 1) = Inr k \<and>
           from_key lib (key r) = Some address \<and>
           fromhex (drop 2 address) = Inr pk \<and>
           info client = None \<longrightarrow>
           fst (generate_proof lib client i key_path key_purpose) = Inl (CallFailed Info)) \<and>
        (\<forall>a k address pk info_response e.
           signature_bytes (signature_chain r ! 0) = Inr a \<and>
           signature_bytes (signature_chain r ! 1) = Inr k \<and>
           from_key lib (key r) = Some address \<and>
           fromhex (drop 2 address) = Inr pk \<and>
           info client = Some info_response \<and>
           fromhex (drop 2 (info_app_id info_response)) = Inl e \<longrightarrow>
           e = ValueError \<and>
           fst (generate_proof lib client i key_path key_purpose) = Inl ValueError))"
proof -
  let ?g = "fst (generate_proof lib client i key_path key_purpose)"
  have short: "length (signature_chain r) < 2 \<longrightarrow>
      ?g = Inl (RuntimeError (Insufficient_signature_chain_length (length (signature_chain r))))"
    using assms by (simp add: generate_proof_short)
  have only_short: "\<forall>m. ?g = Inl (RuntimeError m) \<longrightarrow> length (signature_chain r) < 2"
  proof (intro allI impI)
    fix m
    assume "?g = Inl (RuntimeError m)"
    from generate_proof_runtime_error [OF this] assms
    show "length (signature_chain r) < 2" by auto
  qed
  have long: ?thesis if two: "2 \<le> length (signature_chain r)"
  proof -
    note f = generate_proof_failing_step [OF assms two, where lib = lib and i = i]
    have s: "\<forall>a k address pk info_response aid.
           signature_bytes (signature_chain r ! 0) = Inr a \<and>
           signature_bytes (signature_chain r ! 1) = Inr k \<and>
           from_key lib (key r) = Some address \<and>
           fromhex (drop 2 address) = Inr pk \<and>
           info client = Some info_response \<and>
           fromhex (drop 2 (info_app_id info_response)) = Inr aid \<longrightarrow>
           ?g =
             Inr \<lparr>instance_id_bytes32 = PyBytes (sha256 lib (encode i)),
                  derived_public_key = PyBytes pk,
                  app_signature = a,
                  kms_signature = k,
                  purpose = PyStr key_purpose,
                  app_id = PyBytes (ljust aid 32 0)\<rparr>"
      using assms two by (simp add: generate_proof_long)
    have t: "generate_proof lib client i key_path key_purpose =
          generate_proof lib
            (client\<lparr>get_key :=
               (\<lambda>p q. Some (r\<lparr>signature_chain := take 2 (signature_chain r)\<rparr>))\<rparr>)
            i key_path key_purpose"
      using assms two by (rule generate_proof_take2)
    have f1: "\<forall>e. signature_bytes (signature_chain r ! 0) = Inl e \<longrightarrow>
           e = ValueError \<and> ?g = Inl ValueError"
      using f(1) by blast
    have f2: "\<forall>a e.
           signature_bytes (signature_chain r ! 0) = Inr a \<and>
           signature_bytes (signature_chain r ! 1) = Inl e \<longrightarrow>
           e = ValueError \<and> ?g = Inl ValueError"
      using f(2) by blast
    have f3: "\<forall>a k.
           signature_bytes (signature_chain r ! 0) = Inr a \<and>
           signature_bytes (signature_chain r ! 1) = Inr k \<and>
           from_key lib (key r) = None \<longrightarrow>
           ?g = Inl (CallFailed (FromKey (key r)))"
      using f(3) by blast
    have f4: "\<forall>a k address e.
           signature_bytes (signature_chain r ! 0) = Inr a \<and>
           signature_bytes (signature_chain r ! 1) = Inr k \<and>
           from_key lib (key r) = Some address \<and>
           fromhex (drop 2 address) = Inl e \<longrightarrow>
           e = ValueError \<and> ?g = Inl ValueError"
      using f(4) by blast
    have f5: "\<forall>a k address pk.
           signature_bytes (signature_chain r ! 0) = Inr a \<and>
           signature_bytes (signature_chain r ! 1) = Inr k \<and>
           from_key lib (key r) = Some address \<and>
           fromhex (drop 2 address) = Inr pk \<and>
           info client = None \<longrightarrow>
           ?g = Inl (CallFailed Info)"
      using f(5) by blast
    have f6: "\<forall>a k address pk info_response e.
           signature_bytes (signature_chain r ! 0) = Inr a \<and>
           signature_bytes (signature_chain r ! 1) = Inr k \<and>
           from_key lib (key r) = Some address \<and>
           fromhex (drop 2 address) = Inr pk \<and>
           info client = Some info_response \<and>
           fromhex (drop 2 (info_app_id info_response)) = Inl e \<longrightarrow>
           e = ValueError \<and> ?g = Inl ValueError"
      using f(6) by blast
    from two have "\<not> length (signature_chain r) < 2" by simp
    with only_short s t f1 f2 f3 f4 f5 f6 show ?thesis
      by (intro conjI impI) (simp_all only: simp_thms)
  qed
  show ?thesis
  proof (cases "2 \<le> length (signature_chain r)")
    case True
    then show ?thesis by (rule long)
  next
    case False
    with short only_short show ?thesis by simp
  qed
qed

theorem generate_proof_signature_chain_witness:
  "get_key (example_client chain_of_three ''0x0102'') ''node/node-1'' ''ethereum'' =
     Some \<lparr>key = ''k'', signature_chain = chain_of_three\<rparr> \<and>
   2 \<le> length chain_of_three \<and>
   fst (generate_proof example_lib (example_client chain_of_three ''0x0102'')
          ''node-1'' ''node/node-1'' ''ethereum'') =
     Inr \<lparr>instance_id_bytes32 = PyBytes (replicate 32 7),
          derived_public_key =
            PyBytes [0, 17, 34, 51, 68, 85, 102, 119, 136, 153, 170, 187, 204, 221, 238,
                     255, 0, 17, 34, 51],
          app_signature = PyBytes [171, 205],
          kms_signature = PyBytes [1, 2],
          purpose = PyStr ''ethereum'',
          app_id = PyBytes (ljust [1, 2] 32 0)\<rparr> \<and>
   get_key (example_client chain_of_three ''0x012'') ''node/node-1'' ''ethereum'' =
     Some \<lparr>key = ''k'', signature_chain = chain_of_three\<rparr> \<and>
   fromhex (drop 2 ''0x012'') = Inl ValueError \<and>
   fst (generate_proof example_lib (example_client chain_of_three ''0x012'')
          ''node-1'' ''node/node-1'' ''ethereum'') = Inl ValueError"
proof -
  have h: "get_key (example_client chain_of_three ''0x0102'') ''node/node-1'' ''ethereum'' =
     Some \<lparr>key = ''k'', signature_chain = chain_of_three\<rparr>"
    by (simp add: example_defs)
  have h': "get_key (example_client chain_of_three ''0x012'') ''node/node-1'' ''ethereum'' =
     Some \<lparr>key = ''k'', signature_chain = chain_of_three\<rparr>"
    by (simp add: example_defs)
  have two: "2 \<le> length (signature_chain \<lparr>key = ''k'', signature_chain = chain_of_three\<rparr>)"
    by (simp add: example_defs)
  note ok = generate_proof_signature_chain
      [OF h, of example_lib "''node-1''", THEN conjunct2, THEN conjunct2, THEN mp, OF two,
       THEN conjunct1, THEN spec, THEN spec, THEN spec, THEN spec, THEN spec, THEN spec,
       of "PyBytes [171, 205]" "PyBytes [1, 2]" "''0x00112233445566778899aAbBcCdDeEfF00112233''"
         "[0, 17, 34, 51, 68, 85, 102, 119, 136, 153, 170, 187, 204, 221, 238,
           255, 0, 17, 34, 51]" "\<lparr>info_app_id = ''0x0102''\<rparr>" "[1, 2]"]
  note bad = generate_proof_signature_chain
      [OF h', of example_lib "''node-1''", THEN conjunct2, THEN conjunct2, THEN mp, OF two,
       THEN conjunct2, THEN conjunct2, THEN conjunct2, THEN conjunct2, THEN conjunct2,
       THEN conjunct2, THEN conjunct2,
       THEN spec, THEN spec, THEN spec, THEN spec, THEN spec, THEN spec,
       of "PyBytes [171, 205]" "PyBytes [1, 2]" "''0x00112233445566778899aAbBcCdDeEfF00112233''"
         "[0, 17, 34, 51, 68, 85, 102, 119, 136, 153, 170, 187, 204, 221, 238,
           255, 0, 17, 34, 51]" "\<lparr>info_app_id = ''0x012''\<rparr>" ValueError]
  show ?thesis
    using h h' ok bad
    by (simp add: example_defs hex_defs)
qed

text \<open>
  C7: \<open>generate_proof\<close> should turn every \<open>app_id\<close> answered by the key provider into
  exactly 32 bytes, by stripping the prefix and padding with zero bytes on the right;
  the source's own comments say so ("Convert app_id to bytes32", "Store as bytes32").
  The code does not: \<open>ljust\<close> only pads, so an \<open>app_id\<close> of 33 bytes after the prefix
  gives a proof whose \<open>app_id\<close> has 33 bytes.
\<close>

theorem app_id_not_32_bytes:
  "proof_app_id_len
     (fst (generate_proof example_lib (example_client chain_of_three long_app_id)
             ''node-1'' ''node/node-1'' ''ethereum'')) = Inr 33"
  by (simp add: generate_proof_def proof_app_id_len_def example_defs hex_defs)

text \<open>
  \<open>app_id[2:]\<close> drops two characters whether they are \<open>0x\<close> or not: an \<open>app_id\<close> of 20
  bytes given without a prefix loses its first byte.
\<close>

lemma app_id_without_prefix_loses_byte:
  "fromhex app_id_without_prefix =
     Inr [161, 178, 195, 212, 229, 246, 7, 24, 41, 58, 75, 92, 109, 126, 143, 144, 1, 2, 3, 4] \<and>
   proof_app_id
     (fst (generate_proof example_lib (example_client chain_of_three app_id_without_prefix)
             ''node-1'' ''node/node-1'' ''ethereum'')) =
     Some (PyBytes (ljust
       [178, 195, 212, 229, 246, 7, 24, 41, 58, 75, 92, 109, 126, 143, 144, 1, 2, 3, 4] 32 0))"
  by (simp add: generate_proof_def proof_app_id_def example_defs app_id_without_prefix_def
      signature_bytes_def hex_digit_def is_space_def)

text \<open>
  What the code does do: when \<open>generate_proof\<close> succeeds, the \<open>app_id\<close> of the proof is
  the decoded bytes followed by zero bytes up to 32, so it has 32 bytes when at most 32
  bytes were decoded.
\<close>

lemma app_id_right_padded:
  assumes "fst (generate_proof lib client i key_path key_purpose) = Inr p"
    and "info client = Some info_response"
    and "fromhex (drop 2 (info_app_id info_response)) = Inr bs"
  shows "app_id p = PyBytes (bs @ replicate (32 - length bs) 0) \<and>
         (length bs \<le> 32 \<longrightarrow> py_len (app_id p) = Inr 32) \<and>
         (32 < length bs \<longrightarrow> app_id p = PyBytes bs)"
proof -
  from generate_proof_success [OF assms(1)] assms(2,3)
  have "app_id p = PyBytes (ljust bs 32 0)" by auto
  then show ?thesis by (auto simp add: ljust_def)
qed

section \<open>Properties of get_registration_data\<close>

lemma get_registration_data_no_token:
  assumes "walletToTokenId contract w = Some 0"
  shows "get_registration_data lib client contract w i key_path key_purpose =
     (Inl (RuntimeError (No_NFT_found_for_wallet w)), [WalletToTokenId w])"
  using assms by (simp add: get_registration_data_def)

lemma get_registration_data_token:
  assumes "walletToTokenId contract w = Some t" and "t \<noteq> 0"
  shows "snd (get_registration_data lib client contract w i key_path key_purpose) =
           WalletToTokenId w # snd (generate_proof lib client i key_path key_purpose)"
    and "fst (get_registration_data lib client contract w i key_path key_purpose) =
           (case fst (generate_proof lib client i key_path key_purpose) of
              Inl e \<Rightarrow> Inl e
            | Inr p \<Rightarrow>
                Inr \<lparr>rd_token_id = t,
                     rd_instance_id_bytes32 = instance_id_bytes32 p,
                     rd_derived_public_key = derived_public_key p,
                     rd_app_signature = app_signature p,
                     rd_kms_signature = kms_signature p,
                     rd_purpose = purpose p\<rparr>)"
  using assms
  by (simp_all add: get_registration_data_def split: prod.splits sum.splits)

lemma get_registration_data_success:
  assumes "fst (get_registration_data lib client contract w i key_path key_purpose) = Inr rd"
  shows "\<exists>t p. walletToTokenId contract w = Some t \<and> 0 < t \<and>
           fst (generate_proof lib client i key_path key_purpose) = Inr p \<and>
           rd = \<lparr>rd_token_id = t,
                 rd_instance_id_bytes32 = instance_id_bytes32 p,
                 rd_derived_public_key = derived_public_key p,
                 rd_app_signature = app_signature p,
                 rd_kms_signature = kms_signature p,
                 rd_purpose = purpose p\<rparr>"
  using assms
  by (auto simp add: get_registration_data_def
      split: option.splits if_splits prod.splits sum.splits)

text \<open>
  C4: when \<open>walletToTokenId\<close> answers 0, \<open>get_registration_data\<close> fails with the
  \<open>RuntimeError\<close> "No NFT found for wallet" and the lookup is the only call made: the
  key provider is not called and no proof is built. When it answers a token id other
  than 0, proof generation runs: its calls follow the lookup, the key provider is asked
  for the key, and the failure for a missing token does not occur.
\<close>

theorem registration_requires_token:
  "(walletToTokenId contract w = Some 0 \<longrightarrow>
      get_registration_data lib client contract w i key_path key_purpose =
        (Inl (RuntimeError (No_NFT_found_for_wallet w)), [WalletToTokenId w])) \<and>
   (\<forall>t. walletToTokenId contract w = Some t \<and> t \<noteq> 0 \<longrightarrow>
      snd (get_registration_data lib client contract w i key_path key_purpose) =
        WalletToTokenId w # snd (generate_proof lib client i key_path key_purpose) \<and>
      GetKey key_path key_purpose \<in>
        set (snd (get_registration_data lib client contract w i key_path key_purpose)) \<and>
      fst (get_registration_data lib client contract w i key_path key_purpose) \<noteq>
        Inl (RuntimeError (No_NFT_found_for_wallet w)))"
proof (intro conjI impI allI)
  assume "walletToTokenId contract w = Some 0"
  then show "get_registration_data lib client contract w i key_path key_purpose =
      (Inl (RuntimeError (No_NFT_found_for_wallet w)), [WalletToTokenId w])"
    by (rule get_registration_data_no_token)
next
  fix t
  assume t: "walletToTokenId contract w = Some t \<and> t \<noteq> 0"
  then show calls:
    "snd (get_registration_data lib client contract w i key_path key_purpose) =
       WalletToTokenId w # snd (generate_proof lib client i key_path key_purpose)"
    by (simp add: get_registration_data_token(1))
  show "GetKey key_path key_purpose \<in>
      set (snd (get_registration_data lib client contract w i key_path key_purpose))"
    by (simp add: calls generate_proof_calls)
  show "fst (get_registration_data lib client contract w i key_path key_purpose) \<noteq>
      Inl (RuntimeError (No_NFT_found_for_wallet w))"
  proof
    assume "fst (get_registration_data lib client contract w i key_path key_purpose) =
      Inl (RuntimeError (No_NFT_found_for_wallet w))"
    with t have "fst (generate_proof lib client i key_path key_purpose) =
      Inl (RuntimeError (No_NFT_found_for_wallet w))"
      by (simp add: get_registration_data_token(2) [of contract w t] split: sum.splits)
    from generate_proof_runtime_error [OF this] show False by auto
  qed
qed

theorem registration_requires_token_witness:
  "walletToTokenId (example_contract 0) ''0xA1'' = Some 0 \<and>
   get_registration_data example_lib (example_client chain_of_three ''0x0102'')
       (example_contract 0) ''0xA1'' ''node-1'' ''node/node-1'' ''ethereum'' =
     (Inl (RuntimeError (No_NFT_found_for_wallet ''0xA1'')), [WalletToTokenId ''0xA1'']) \<and>
   walletToTokenId (example_contract 7) ''0xA1'' = Some 7 \<and>
   GetKey ''node/node-1'' ''ethereum'' \<in>
     set (snd (get_registration_data example_lib (example_client chain_of_three ''0x0102'')
       (example_contract 7) ''0xA1'' ''node-1'' ''node/node-1'' ''ethereum''))"
proof -
  have z: "walletToTokenId (example_contract 0) ''0xA1'' = Some 0"
    by (simp add: example_defs)
  have s: "walletToTokenId (example_contract 7) ''0xA1'' = Some 7 \<and> (7::nat) \<noteq> 0"
    by (simp add: example_defs)
  show ?thesis
    using z s
      registration_requires_token
        [of "example_contract 0" "''0xA1''" example_lib
          "example_client chain_of_three ''0x0102''" "''node-1''" "''node/node-1''"
          "''ethereum''", THEN conjunct1, THEN mp, OF z]
      registration_requires_token
        [of "example_contract 7" "''0xA1''" example_lib
          "example_client chain_of_three ''0x0102''" "''node-1''" "''node/node-1''"
          "''ethereum''", THEN conjunct2, THEN spec, THEN mp, OF s]
    by blast
qed

text \<open>
  C9, as stated: every field of the generated \<open>SignatureProof\<close>, \<open>app_id\<close> included,
  appears in the \<open>RegistrationData\<close>. It is false: \<open>RegistrationData\<close> has no \<open>app_id\<close>
  field, so two key providers that differ in their \<open>app_id\<close> alone give two proofs with
  different \<open>app_id\<close> and one and the same \<open>RegistrationData\<close>.
\<close>

theorem registration_data_drops_app_id_counterexample:
  "proof_app_id (fst (generate_proof example_lib (example_client chain_of_three ''0x0102'')
       ''node-1'' ''node/node-1'' ''ethereum'')) \<noteq>
   proof_app_id (fst (generate_proof example_lib (example_client chain_of_three ''0x0304'')
       ''node-1'' ''node/node-1'' ''ethereum'')) \<and>
   fst (get_registration_data example_lib (example_client chain_of_three ''0x0102'')
       (example_contract 7) ''0xA1'' ''node-1'' ''node/node-1'' ''ethereum'') =
   fst (get_registration_data example_lib (example_client chain_of_three ''0x0304'')
       (example_contract 7) ''0xA1'' ''node-1'' ''node/node-1'' ''ethereum'') \<and>
   fst (get_registration_data example_lib (example_client chain_of_three ''0x0102'')
       (example_contract 7) ''0xA1'' ''node-1'' ''node/node-1'' ''ethereum'') =
     Inr \<lparr>rd_token_id = 7,
          rd_instance_id_bytes32 = PyBytes (replicate 32 7),
          rd_derived_public_key =
            PyBytes [0, 17, 34, 51, 68, 85, 102, 119, 136, 153, 170, 187, 204, 221, 238,
                     255, 0, 17, 34, 51],
          rd_app_signature = PyBytes [171, 205],
          rd_kms_signature = PyBytes [1, 2],
          rd_purpose = PyStr ''ethereum''\<rparr>"
  by (simp add: get_registration_data_def generate_proof_def proof_app_id_def
      example_defs hex_defs)

text \<open>
  C9, amended: a \<open>RegistrationData\<close> that \<open>get_registration_data\<close> returns carries the
  token id answered by \<open>walletToTokenId\<close>, which is positive, and the five fields
  \<open>instance_id_bytes32\<close>, \<open>derived_public_key\<close>, \<open>app_signature\<close>, \<open>kms_signature\<close> and
  \<open>purpose\<close> of the generated proof, unchanged; the \<open>app_id\<close> of the proof is not
  carried.
\<close>

theorem registration_data_fields:
  assumes "fst (get_registration_data lib client contract w i key_path key_purpose) = Inr rd"
  shows "walletToTokenId contract w = Some (rd_token_id rd) \<and> 0 < rd_token_id rd \<and>
         (\<exists>p. fst (generate_proof lib client i key_path key_purpose) = Inr p \<and>
              rd_instance_id_bytes32 rd = instance_id_bytes32 p \<and>
              rd_derived_public_key rd = derived_public_key p \<and>
              rd_app_signature rd = app_signature p \<and>
              rd_kms_signature rd = kms_signature p \<and>
              rd_purpose rd = purpose p)"
  using get_registration_data_success [OF assms] by auto

theorem registration_data_fields_witness:
  "walletToTokenId (example_contract 7) ''0xA1'' = Some 7 \<and>
   fst (get_registration_data example_lib (example_client chain_of_three ''0x0102'')
       (example_contract 7) ''0xA1'' ''node-1'' ''node/node-1'' ''ethereum'') =
     Inr \<lparr>rd_token_id = 7,
          rd_instance_id_bytes32 = PyBytes (replicate 32 7),
          rd_derived_public_key =
            PyBytes [0, 17, 34, 51, 68, 85, 102, 119, 136, 153, 170, 187, 204, 221, 238,
                     255, 0, 17, 34, 51],
          rd_app_signature = PyBytes [171, 205],
          rd_kms_signature = PyBytes [1, 2],
          rd_purpose = PyStr ''ethereum''\<rparr>"
proof -
  have g: "fst (get_registration_data example_lib (example_client chain_of_three ''0x0102'')
       (example_contract 7) ''0xA1'' ''node-1'' ''node/node-1'' ''ethereum'') =
     Inr \<lparr>rd_token_id = 7,
          rd_instance_id_bytes32 = PyBytes (replicate 32 7),
          rd_derived_public_key =
            PyBytes [0, 17, 34, 51, 68, 85, 102, 119, 136, 153, 170, 187, 204, 221, 238,
                     255, 0, 17, 34, 51],
          rd_app_signature = PyBytes [171, 205],
          rd_kms_signature = PyBytes [1, 2],
          rd_purpose = PyStr ''ethereum''\<rparr>"
    by (simp add: get_registration_data_def generate_proof_def example_defs hex_defs)
  show ?thesis
    using g registration_data_fields [OF g] by simp
qed

section \<open>Properties of the leader monitor\<close>

lemma ping_leader_false: "\<not> ping_leader net leader_address"
  by (simp add: ping_leader_def ping_leader_try_def)

lemma check_leader_status_fields:
  "counter_value (fst (check_leader_status self net)) = counter_value self"
  "operation_log (fst (check_leader_status self net)) = operation_log self"
  "wallet_private_key (fst (check_leader_status self net)) = wallet_private_key self"
  by (simp_all add: check_leader_status_def Let_def split: option.splits)

lemma increment_counter_leader:
  "is_leader self \<Longrightarrow>
     increment_counter self =
       (self\<lparr>counter_value := counter_value self + 1\<rparr>, Inl (NameError ''time''))"
  by (simp add: increment_counter_def time_time_def)

lemma increment_counter_follower:
  "\<not> is_leader self \<Longrightarrow> increment_counter self = (self, Inl (NameError ''web''))"
  by (simp add: increment_counter_def web_json_response_def)

lemma increment_counter_fields:
  "wallet_private_key (fst (increment_counter self)) = wallet_private_key self"
  "is_leader (fst (increment_counter self)) = is_leader self"
  "operation_log (fst (increment_counter self)) = operation_log self"
  by (cases "is_leader self"; simp add: increment_counter_leader increment_counter_follower)+

lemma leader_heartbeat_unchanged: "leader_heartbeat self = self"
  by (simp add: leader_heartbeat_def leader_heartbeat_try_def time_time_def)

lemma step_wallet_private_key: "wallet_private_key (step self ev) = wallet_private_key self"
  by (cases ev)
    (simp_all add: check_leader_status_fields increment_counter_fields leader_heartbeat_unchanged)

lemma run_wallet_private_key: "wallet_private_key (run self evs) = wallet_private_key self"
  by (induction evs arbitrary: self) (simp_all add: step_wallet_private_key)

text \<open>No node has the attribute \<open>wallet_private_key\<close>, whatever it has been through.\<close>

lemma reachable_wallet_private_key:
  "wallet_private_key (run (DistributedCounter_init a) evs) = None"
  by (simp add: run_wallet_private_key DistributedCounter_init_def)

text \<open>Hence no poll cycle of any node sends a vote.\<close>

lemma reachable_sends_nothing:
  "snd (check_leader_status (run (DistributedCounter_init a) evs) net) = []"
  using reachable_wallet_private_key [of a evs]
  by (simp add: check_leader_status_def Let_def vote_no_confidence_def vote_confidence_def
      split: option.splits)

text \<open>
  With the attribute present and the ledger reachable, the cycle would send exactly one
  vote against a leader other than the node and the zero address; it is a no-confidence
  vote, since the probe never succeeds.
\<close>

lemma vote_sent_with_private_key:
  assumes "wallet_private_key self = Some k"
    and "build_transaction_ok net" and "send_raw_transaction_ok net"
    and "currentLeader net = Some x" and "x \<noteq> wallet_address self" and "x \<noteq> zero_address"
  shows "snd (check_leader_status self net) = [castVote x (\<not> ping_leader net x)]"
  using assms
  by (simp add: check_leader_status_def Let_def vote_no_confidence_def vote_confidence_def)

lemma no_vote_without_leader:
  assumes "currentLeader net = Some zero_address \<or> currentLeader net = Some (wallet_address self)"
  shows "snd (check_leader_status self net) = []"
  using assms by (auto simp add: check_leader_status_def Let_def)

lemmas cycle_defs = leader_is_def ledger_down_def zero_address_def

lemmas counter_defs = DistributedCounter_init_def check_leader_status_def
  increment_counter_def leader_heartbeat_def leader_heartbeat_try_def ping_leader_def
  ping_leader_try_def time_time_def web_json_response_def vote_no_confidence_def
  vote_confidence_def Let_def

text \<open>
  C5, as stated: after every poll cycle \<open>is_leader\<close> holds if and only if
  \<open>currentLeader()\<close> returned the node's own address on that cycle. It is false: when
  the read of the ledger raises, the exception is caught and \<open>is_leader\<close> keeps its
  value, so a node that was leader is still leader after a cycle in which
  \<open>currentLeader()\<close> returned nothing.
\<close>

theorem stale_leader_counterexample:
  "currentLeader ledger_down \<noteq> Some ''0xA1'' \<and>
   is_leader (run (DistributedCounter_init ''0xA1'') [Poll (leader_is ''0xA1''), Poll ledger_down])"
  by (simp add: counter_defs cycle_defs)

text \<open>
  C5, amended: after every poll cycle in which \<open>currentLeader()\<close> returns, \<open>is_leader\<close>
  holds if and only if the returned address is the node's own, so the monitor is
  \<open>Leader\<close> from the first such cycle with its own address and \<open>Follower\<close> from the first
  such cycle with another one, and it is in one of the two states only; a cycle in which
  the read raises leaves the node as it was. Increment requests and heartbeats do not
  change \<open>is_leader\<close>.
\<close>

theorem check_leader_status_is_leader:
  "(currentLeader net = Some current_leader \<longrightarrow>
      is_leader (fst (check_leader_status self net)) = (current_leader = wallet_address self) \<and>
      monitor_state_of (fst (check_leader_status self net)) =
        (if current_leader = wallet_address self then Leader else Follower)) \<and>
   (currentLeader net = None \<longrightarrow> fst (check_leader_status self net) = self) \<and>
   is_leader (fst (increment_counter self)) = is_leader self \<and>
   is_leader (leader_heartbeat self) = is_leader self"
  by (simp add: check_leader_status_def monitor_state_of_def Let_def
      increment_counter_fields leader_heartbeat_unchanged)

theorem check_leader_status_is_leader_witness:
  "currentLeader (leader_is ''0xA1'') = Some ''0xA1'' \<and>
   monitor_state_of (DistributedCounter_init ''0xA1'') = Follower \<and>
   monitor_state_of
     (fst (check_leader_status (DistributedCounter_init ''0xA1'') (leader_is ''0xA1''))) = Leader \<and>
   currentLeader (leader_is ''0xB2'') = Some ''0xB2'' \<and>
   monitor_state_of
     (fst (check_leader_status
        (fst (check_leader_status (DistributedCounter_init ''0xA1'') (leader_is ''0xA1'')))
        (leader_is ''0xB2''))) = Follower"
proof -
  have a: "currentLeader (leader_is ''0xA1'') = Some ''0xA1''"
    and b: "currentLeader (leader_is ''0xB2'') = Some ''0xB2''"
    by (simp_all add: cycle_defs)
  have w: "wallet_address
     (fst (check_leader_status (DistributedCounter_init ''0xA1'') (leader_is ''0xA1''))) = ''0xA1''"
    by (simp add: counter_defs cycle_defs)
  show ?thesis
    using a b w
      check_leader_status_is_leader
        [of "leader_is ''0xA1''" "''0xA1''" "DistributedCounter_init ''0xA1''",
         THEN conjunct1, THEN mp, OF a]
      check_leader_status_is_leader
        [of "leader_is ''0xB2''" "''0xB2''"
          "fst (check_leader_status (DistributedCounter_init ''0xA1'') (leader_is ''0xA1''))",
         THEN conjunct1, THEN mp, OF b]
    by (simp add: monitor_state_of_def DistributedCounter_init_def)
qed

text \<open>
  C6: in a cycle where \<open>currentLeader()\<close> returns an address \<open>X\<close> other than the node's
  own and the zero address and the probe of \<open>X\<close> fails, the monitor should send one
  no-confidence vote against \<open>X\<close>. The code calls \<open>vote_no_confidence\<close> once, but the
  function reads \<open>self.wallet_private_key\<close>, which no node has; the \<open>AttributeError\<close> is
  caught inside the function and no transaction is sent.
\<close>

theorem no_confidence_vote_not_sent:
  "currentLeader (leader_is ''0xB2'') = Some ''0xB2'' \<and>
   ''0xB2'' \<noteq> wallet_address (DistributedCounter_init ''0xA1'') \<and>
   ''0xB2'' \<noteq> zero_address \<and>
   \<not> ping_leader (leader_is ''0xB2'') ''0xB2'' \<and>
   build_transaction_ok (leader_is ''0xB2'') \<and>
   send_raw_transaction_ok (leader_is ''0xB2'') \<and>
   snd (check_leader_status (DistributedCounter_init ''0xA1'') (leader_is ''0xB2'')) = []"
  by (simp add: counter_defs cycle_defs)

section \<open>Properties of the counter\<close>

lemma step_operation_log: "operation_log (step self ev) = operation_log self"
  by (cases ev)
    (simp_all add: check_leader_status_fields increment_counter_fields leader_heartbeat_unchanged)

lemma run_operation_log: "operation_log (run self evs) = operation_log self"
  by (induction evs arbitrary: self) (simp_all add: step_operation_log)

text \<open>The log of a node stays empty, whatever the node has been through.\<close>

lemma reachable_operation_log: "operation_log (run (DistributedCounter_init a) evs) = []"
  by (simp add: run_operation_log DistributedCounter_init_def)

text \<open>
  C8: an increment request on a leader should add one to \<open>counter_value\<close> and append
  one entry recording the new value to \<open>operation_log\<close>, and on a node that is not leader
  it should be rejected with an error, the state unchanged. In the code the leader's
  request adds one to the counter and then raises \<open>NameError\<close> at \<open>time.time()\<close>, before
  the append: the counter is 1 and the log is empty. The request on a node that is not
  leader leaves the state unchanged and raises \<open>NameError\<close> at \<open>web.json_response\<close>
  instead of answering the error with status 403.
\<close>

theorem increment_counter_raises:
  "is_leader (run (DistributedCounter_init ''0xA1'') [Poll (leader_is ''0xA1'')]) \<and>
   counter_value (run (DistributedCounter_init ''0xA1'') [Poll (leader_is ''0xA1'')]) = 0 \<and>
   operation_log (run (DistributedCounter_init ''0xA1'') [Poll (leader_is ''0xA1'')]) = [] \<and>
   snd (increment_counter (run (DistributedCounter_init ''0xA1'') [Poll (leader_is ''0xA1'')])) =
     Inl (NameError ''time'') \<and>
   counter_value
     (fst (increment_counter (run (DistributedCounter_init ''0xA1'') [Poll (leader_is ''0xA1'')])))
     = 1 \<and>
   operation_log
     (fst (increment_counter (run (DistributedCounter_init ''0xA1'') [Poll (leader_is ''0xA1'')])))
     = [] \<and>
   \<not> is_leader (DistributedCounter_init ''0xA1'') \<and>
   increment_counter (DistributedCounter_init ''0xA1'') =
     (DistributedCounter_init ''0xA1'', Inl (NameError ''web''))"
  by (simp add: counter_defs cycle_defs)

text \<open>
  C10: in every state a node reaches, \<open>counter_value\<close> should be the length of
  \<open>operation_log\<close>. In the code every increment request on a leader adds one to the
  counter and raises before the append: after two requests the counter is 2 and the log
  has no entry.
\<close>

theorem counter_value_exceeds_log_length:
  "counter_value (run (DistributedCounter_init ''0xA1'')
     [Poll (leader_is ''0xA1''), Increment, Increment]) = 2 \<and>
   length (operation_log (run (DistributedCounter_init ''0xA1'')
     [Poll (leader_is ''0xA1''), Increment, Increment])) = 0"
  by (simp add: counter_defs cycle_defs)

end
